theory Spec2Isabelle
  imports Main "HOL-Library.Word"
begin

unbundle bit_operations_syntax

section \<open>Machine types and build-time constants\<close>

text \<open>
  The model is the 64-bit build of \<^verbatim>\<open>rpmalloc.c\<close> (\<^verbatim>\<open>ARCH_64BIT\<close>):
  \<^verbatim>\<open>size_t\<close>, \<^verbatim>\<open>uintptr_t\<close> and pointers are 64-bit words, \<^verbatim>\<open>uint32_t\<close> is a
  32-bit word. The null pointer is the word 0. Word arithmetic wraps around as the
  unsigned C arithmetic does.
\<close>

type_synonym size_t = "64 word"
type_synonym uintptr_t = "64 word"
type_synonym addr = "64 word"
type_synonym uint32_t = "32 word"
type_synonym uint64_t = "64 word"

definition PAGE_HEADER_SIZE :: "64 word" where
  "PAGE_HEADER_SIZE = 128"

definition SPAN_HEADER_SIZE :: "64 word" where
  "SPAN_HEADER_SIZE = PAGE_HEADER_SIZE"

definition SMALL_GRANULARITY :: "64 word" where
  "SMALL_GRANULARITY = 32"

definition SMALL_SIZE_CLASS_COUNT :: "32 word" where
  "SMALL_SIZE_CLASS_COUNT = 29"

definition MEDIUM_SIZE_CLASS_COUNT :: "32 word" where
  "MEDIUM_SIZE_CLASS_COUNT = 24"

definition LARGE_SIZE_CLASS_COUNT :: "32 word" where
  "LARGE_SIZE_CLASS_COUNT = 20"

definition SIZE_CLASS_COUNT :: "32 word" where
  "SIZE_CLASS_COUNT = SMALL_SIZE_CLASS_COUNT + MEDIUM_SIZE_CLASS_COUNT + LARGE_SIZE_CLASS_COUNT"

definition SMALL_PAGE_SIZE_SHIFT :: "32 word" where
  "SMALL_PAGE_SIZE_SHIFT = 16"

definition SMALL_PAGE_SIZE :: "64 word" where
  "SMALL_PAGE_SIZE = push_bit (unat SMALL_PAGE_SIZE_SHIFT) 1"

definition MEDIUM_PAGE_SIZE_SHIFT :: "32 word" where
  "MEDIUM_PAGE_SIZE_SHIFT = 22"

definition MEDIUM_PAGE_SIZE :: "64 word" where
  "MEDIUM_PAGE_SIZE = push_bit (unat MEDIUM_PAGE_SIZE_SHIFT) 1"

definition LARGE_PAGE_SIZE_SHIFT :: "32 word" where
  "LARGE_PAGE_SIZE_SHIFT = 26"

definition LARGE_PAGE_SIZE :: "64 word" where
  "LARGE_PAGE_SIZE = push_bit (unat LARGE_PAGE_SIZE_SHIFT) 1"

definition SPAN_SIZE :: "64 word" where
  "SPAN_SIZE = 256 * 1024 * 1024"

definition SPAN_MASK :: "64 word" where
  "SPAN_MASK = NOT (SPAN_SIZE - 1)"

definition MAX_ALIGNMENT :: "64 word" where
  "MAX_ALIGNMENT = 256 * 1024"

section \<open>Size classes\<close>

text \<open>
  Fields of a C struct \<^verbatim>\<open>T_t\<close> are named \<^verbatim>\<open>T_field\<close> throughout, so that the
  same field name of two structs (\<^verbatim>\<open>block_size\<close> of a size class and of a page,
  \<^verbatim>\<open>next\<close> of a page, a span and a heap) stays apart.
\<close>

datatype page_type_t = PAGE_SMALL | PAGE_MEDIUM | PAGE_LARGE | PAGE_HUGE

record size_class_t =
  size_class_block_size :: uint32_t
  size_class_block_count :: uint32_t

text \<open>The macros \<^verbatim>\<open>SCLASS\<close>, \<^verbatim>\<open>MCLASS\<close> and \<^verbatim>\<open>LCLASS\<close>.\<close>

definition SCLASS :: "64 word \<Rightarrow> size_class_t" where
  "SCLASS n = \<lparr> size_class_block_size = ucast (n * SMALL_GRANULARITY),
               size_class_block_count =
                 ucast ((SMALL_PAGE_SIZE - PAGE_HEADER_SIZE) div (n * SMALL_GRANULARITY)) \<rparr>"

definition MCLASS :: "64 word \<Rightarrow> size_class_t" where
  "MCLASS n = \<lparr> size_class_block_size = ucast (n * SMALL_GRANULARITY),
               size_class_block_count =
                 ucast ((MEDIUM_PAGE_SIZE - PAGE_HEADER_SIZE) div (n * SMALL_GRANULARITY)) \<rparr>"

definition LCLASS :: "64 word \<Rightarrow> size_class_t" where
  "LCLASS n = \<lparr> size_class_block_size = ucast (n * SMALL_GRANULARITY),
               size_class_block_count =
                 ucast ((LARGE_PAGE_SIZE - PAGE_HEADER_SIZE) div (n * SMALL_GRANULARITY)) \<rparr>"

definition global_size_class :: "size_class_t list" where
  "global_size_class =
    [SCLASS 1,      SCLASS 1,      SCLASS 2,     SCLASS 3,     SCLASS 4,      SCLASS 5,      SCLASS 6,
     SCLASS 7,      SCLASS 8,      SCLASS 9,     SCLASS 10,    SCLASS 11,     SCLASS 12,     SCLASS 13,
     SCLASS 14,     SCLASS 15,     SCLASS 16,    SCLASS 20,    SCLASS 24,     SCLASS 28,     SCLASS 32,
     SCLASS 40,     SCLASS 48,     SCLASS 56,    SCLASS 64,    SCLASS 80,     SCLASS 96,     SCLASS 112,
     SCLASS 128,    MCLASS 160,    MCLASS 192,   MCLASS 224,   MCLASS 256,    MCLASS 320,    MCLASS 384,
     MCLASS 448,    MCLASS 512,    MCLASS 640,   MCLASS 768,   MCLASS 896,    MCLASS 1024,   MCLASS 1280,
     MCLASS 1536,   MCLASS 1792,   MCLASS 2048,  MCLASS 2560,  MCLASS 3072,   MCLASS 3584,   MCLASS 4096,
     MCLASS 5120,   MCLASS 6144,   MCLASS 7168,  MCLASS 8192,  LCLASS 10240,  LCLASS 12288,  LCLASS 14336,
     LCLASS 16384,  LCLASS 20480,  LCLASS 24576, LCLASS 28672, LCLASS 32768,  LCLASS 40960,  LCLASS 49152,
     LCLASS 57344,  LCLASS 65536,  LCLASS 81920, LCLASS 98304, LCLASS 114688, LCLASS 131072, LCLASS 163840,
     LCLASS 196608, LCLASS 229376, LCLASS 262144]"

text \<open>
  \<^verbatim>\<open>rpmalloc_clz\<close> is \<^verbatim>\<open>__builtin_clzll\<close>: the number of zero bits above the most
  significant set bit. \<open>leading_zeros n x\<close> scans the bits \<open>n - 1\<close> down to 0. The C
  builtin is undefined at 0; the caller below never passes 0.
\<close>

primrec leading_zeros :: "nat \<Rightarrow> 64 word \<Rightarrow> nat" where
  "leading_zeros 0 x = 0"
| "leading_zeros (Suc n) x = (if bit x n then 0 else Suc (leading_zeros n x))"

definition rpmalloc_clz :: "uintptr_t \<Rightarrow> size_t" where
  "rpmalloc_clz x = of_nat (leading_zeros 64 x)"

definition get_size_class_tiny :: "size_t \<Rightarrow> uint32_t" where
  "get_size_class_tiny sz =
     ((ucast sz :: uint32_t) + (ucast SMALL_GRANULARITY - 1)) div ucast SMALL_GRANULARITY"

definition get_size_class :: "size_t \<Rightarrow> uint32_t" where
  "get_size_class sz =
     (let minblock_count = (sz + (SMALL_GRANULARITY - 1)) div SMALL_GRANULARITY in
      if sz \<le> SMALL_GRANULARITY * 16
      then ucast (if minblock_count \<noteq> 0 then minblock_count else 1)
      else
        let minblock_count = minblock_count - 1;
            most_significant_bit =
              (word_of_int (63 - sint (ucast (rpmalloc_clz minblock_count) :: 32 word)) :: uint32_t);
            subclass_bits =
              (ucast (drop_bit (unat (most_significant_bit - 2)) minblock_count AND 3) :: uint32_t);
            class_idx = (push_bit 2 most_significant_bit + subclass_bits) + 1
        in class_idx)"

definition get_page_type :: "uint32_t \<Rightarrow> page_type_t" where
  "get_page_type sclass =
     (if sclass < SMALL_SIZE_CLASS_COUNT then PAGE_SMALL
      else if sclass < SMALL_SIZE_CLASS_COUNT + MEDIUM_SIZE_CLASS_COUNT then PAGE_MEDIUM
      else if sclass < SIZE_CLASS_COUNT then PAGE_LARGE
      else PAGE_HUGE)"

text \<open>The block size of size class \<open>j\<close>, in bytes, as a natural number.\<close>

definition class_size :: "nat \<Rightarrow> nat" where
  "class_size j = unat (size_class_block_size (global_size_class ! j))"

section \<open>Pages, spans, heaps and the allocator state\<close>

record page_t =
  page_size_class :: uint32_t
  page_block_size :: uint32_t
  page_block_count :: uint32_t
  page_block_initialized :: uint32_t
  page_block_used :: uint32_t
  page_page_type :: page_type_t
  page_is_full :: bool
  page_is_free :: bool
  page_is_zero :: bool
  page_is_decommitted :: bool
  page_has_aligned_block :: bool
  page_local_free_count :: uint32_t
  page_local_free :: addr
  page_owner_thread :: uintptr_t
  page_heap :: addr
  page_next :: addr
  page_prev :: addr
  page_thread_free :: uint64_t

text \<open>
  A \<^verbatim>\<open>span_t\<close> starts with a \<^verbatim>\<open>page_t\<close> (its member \<^verbatim>\<open>page\<close>): the header of a span
  and the header of its first page are the same memory. The record holds the members
  after \<^verbatim>\<open>page\<close>; \<^verbatim>\<open>span->page\<close> is the page stored at the span's own address.
\<close>

record span_t =
  span_page_initialized :: uint32_t
  span_page_count :: uint32_t
  span_page_size :: uint32_t
  span_page_size_shift :: uint32_t
  span_page_type :: page_type_t
  span_offset :: uint32_t
  span_mapped_size :: uint64_t
  span_next :: addr
  span_prev :: addr

text \<open>
  The arrays of a heap are functions of the index: a size class for
  \<^verbatim>\<open>local_free\<close> and \<^verbatim>\<open>page_available\<close>, a page type for the four arrays of
  length 3 (the code never indexes them with \<^verbatim>\<open>PAGE_HUGE\<close>).
\<close>

record heap_t =
  heap_owner_thread :: uintptr_t
  heap_local_free :: "uint32_t \<Rightarrow> addr"
  heap_page_available :: "uint32_t \<Rightarrow> addr"
  heap_page_free :: "page_type_t \<Rightarrow> addr"
  heap_page_free_thread :: "page_type_t \<Rightarrow> uintptr_t"
  heap_span_partial :: "page_type_t \<Rightarrow> addr"
  heap_span_used :: "page_type_t \<Rightarrow> addr"
  heap_next :: addr
  heap_id :: uint32_t
  heap_finalize :: uint32_t
  heap_offset :: uint32_t
  heap_mapped_size :: size_t

text \<open>The calls that reach the operating system, in the order they are made.\<close>

datatype os_call =
    OS_mmap size_t
  | OS_mcommit addr size_t
  | OS_mdecommit addr size_t
  | OS_munmap addr size_t

text \<open>
  The state is the memory the allocator works on, split by the type of the object
  stored at an address (page headers, the span members after the page header, heaps, the
  \<^verbatim>\<open>next\<close> pointer that a free block holds, payload bytes), the global variables of
  \<^verbatim>\<open>rpmalloc.c\<close>, and the environment: \<open>sysconf_pagesize\<close> is what
  \<^verbatim>\<open>sysconf(_SC_PAGESIZE)\<close> returns, \<open>os_mmap_results\<close> are the addresses the coming
  \<^verbatim>\<open>mmap\<close> calls return (0 or \<^verbatim>\<open>MAP_FAILED\<close> for a failure, and the empty list for an
  operating system with no memory left), \<open>os_calls\<close> logs the system calls made.
  \<open>global_thread_heap\<close> is thread local: one pointer for each thread id.
  \<open>global_memory_interface\<close> is \<open>True\<close> once the pointer is set; the model covers the
  default interface (\<^verbatim>\<open>os_mmap\<close>, \<^verbatim>\<open>os_mcommit\<close>, \<^verbatim>\<open>os_mdecommit\<close>, \<^verbatim>\<open>os_munmap\<close>, no
  \<^verbatim>\<open>map_fail_callback\<close>), which \<^verbatim>\<open>rpmalloc_initialize(0)\<close> installs.
\<close>

record state =
  pages :: "addr \<Rightarrow> page_t"
  spans :: "addr \<Rightarrow> span_t"
  heaps :: "addr \<Rightarrow> heap_t"
  block_next :: "addr \<Rightarrow> addr"
  bytes :: "addr \<Rightarrow> 8 word"
  global_heap_default :: addr
  global_heap_queue :: addr
  global_heap_lock :: uintptr_t
  global_heap_id :: uint32_t
  global_memory_interface :: bool
  os_map_granularity :: size_t
  os_page_size :: size_t
  global_thread_heap :: "uintptr_t \<Rightarrow> addr"
  errno :: int
  sysconf_pagesize :: size_t
  os_mmap_results :: "addr list"
  os_calls :: "os_call list"

text \<open>Writing through a pointer: \<^verbatim>\<open>page->f = v\<close> is \<open>page_set page (\<lambda>p. p\<lparr>f := v\<rparr>)\<close>.\<close>

definition page_set :: "addr \<Rightarrow> (page_t \<Rightarrow> page_t) \<Rightarrow> state \<Rightarrow> state" where
  "page_set page f s = s\<lparr>pages := (pages s)(page := f (pages s page))\<rparr>"

definition span_set :: "addr \<Rightarrow> (span_t \<Rightarrow> span_t) \<Rightarrow> state \<Rightarrow> state" where
  "span_set span f s = s\<lparr>spans := (spans s)(span := f (spans s span))\<rparr>"

definition heap_set :: "addr \<Rightarrow> (heap_t \<Rightarrow> heap_t) \<Rightarrow> state \<Rightarrow> state" where
  "heap_set heap f s = s\<lparr>heaps := (heaps s)(heap := f (heaps s heap))\<rparr>"

definition block_set_next :: "addr \<Rightarrow> addr \<Rightarrow> state \<Rightarrow> state" where
  "block_set_next block v s = s\<lparr>block_next := (block_next s)(block := v)\<rparr>"

text \<open>
  \<^verbatim>\<open>memset\<close>, \<^verbatim>\<open>memcpy\<close> and \<^verbatim>\<open>memmove\<close> on the payload bytes. An address \<open>a\<close> lies in
  the \<open>n\<close> bytes from \<open>dst\<close> when \<open>a - dst < n\<close> in wrap-around arithmetic. The copy
  reads every source byte from the memory before the call, as \<^verbatim>\<open>memmove\<close> does and as
  \<^verbatim>\<open>memcpy\<close> does on the ranges that do not overlap, the only ones it is defined on.
\<close>

definition memset :: "addr \<Rightarrow> 8 word \<Rightarrow> size_t \<Rightarrow> state \<Rightarrow> state" where
  "memset dst v n s = s\<lparr>bytes := (\<lambda>a. if a - dst < n then v else bytes s a)\<rparr>"

definition memmove :: "addr \<Rightarrow> addr \<Rightarrow> size_t \<Rightarrow> state \<Rightarrow> state" where
  "memmove dst src n s =
     s\<lparr>bytes := (\<lambda>a. if a - dst < n then bytes s (src + (a - dst)) else bytes s a)\<rparr>"

definition memcpy :: "addr \<Rightarrow> addr \<Rightarrow> size_t \<Rightarrow> state \<Rightarrow> state" where
  "memcpy dst src n s = memmove dst src n s"

subsection \<open>Page interface\<close>

definition page_get_span :: "addr \<Rightarrow> addr" where
  "page_get_span page = page AND SPAN_MASK"

definition page_get_size :: "state \<Rightarrow> addr \<Rightarrow> size_t" where
  "page_get_size s page =
     (if page_page_type (pages s page) = PAGE_SMALL then SMALL_PAGE_SIZE
      else if page_page_type (pages s page) = PAGE_MEDIUM then MEDIUM_PAGE_SIZE
      else if page_page_type (pages s page) = PAGE_LARGE then LARGE_PAGE_SIZE
      else ucast (span_page_size (spans s (page_get_span page))))"


text \<open>
  In \<^verbatim>\<open>page_block\<close> the offset \<^verbatim>\<open>PAGE_HEADER_SIZE + (page->block_size * block_index)\<close> is
  computed in \<^verbatim>\<open>uint32_t\<close> and then widened to the pointer difference.
\<close>

definition page_block :: "state \<Rightarrow> addr \<Rightarrow> uint32_t \<Rightarrow> addr" where
  "page_block s page block_index =
     page + ucast (ucast PAGE_HEADER_SIZE + page_block_size (pages s page) * block_index :: uint32_t)"


text \<open>\<^verbatim>\<open>page_block_from_thread_free_list\<close> returns the list count and stores the head block
  through its third argument: the model returns the pair.\<close>

definition page_block_from_thread_free_list :: "state \<Rightarrow> addr \<Rightarrow> uint64_t \<Rightarrow> uint32_t \<times> addr" where
  "page_block_from_thread_free_list s page token =
     (let block_index = (ucast (token AND 0xFFFFFFFF) :: uint32_t);
          list_count = (ucast (drop_bit 32 token AND 0xFFFFFFFF) :: uint32_t);
          block = (if list_count \<noteq> 0 then page_block s page block_index else 0)
      in (list_count, block))"

definition page_block_to_thread_free_list :: "addr \<Rightarrow> uint32_t \<Rightarrow> uint32_t \<Rightarrow> uint64_t" where
  "page_block_to_thread_free_list page block_index list_count =
     push_bit 32 (ucast list_count :: uint64_t) OR (ucast block_index :: uint64_t)"


definition page_get_local_free_block :: "state \<Rightarrow> addr \<Rightarrow> addr \<times> state" where
  "page_get_local_free_block s page =
     (if page_local_free (pages s page) \<noteq> 0 then
        let block = page_local_free (pages s page);
            s = page_set page (\<lambda>p. p\<lparr>page_local_free := block_next s block\<rparr>) s;
            s = page_set page (\<lambda>p. p\<lparr>page_local_free_count := page_local_free_count p - 1\<rparr>) s;
            s = page_set page (\<lambda>p. p\<lparr>page_block_used := page_block_used p + 1\<rparr>) s
        in (block, s)
      else (0, s))"

text \<open>\<^verbatim>\<open>memory_decommit\<close> and \<^verbatim>\<open>memory_commit\<close> of the default interface are
  \<^verbatim>\<open>os_mdecommit\<close> and \<^verbatim>\<open>os_mcommit\<close>: system calls on the range, logged.\<close>

definition os_mdecommit :: "addr \<Rightarrow> size_t \<Rightarrow> state \<Rightarrow> state" where
  "os_mdecommit address sz s = s\<lparr>os_calls := os_calls s @ [OS_mdecommit address sz]\<rparr>"

definition os_mcommit :: "addr \<Rightarrow> size_t \<Rightarrow> state \<Rightarrow> state" where
  "os_mcommit address sz s = s\<lparr>os_calls := os_calls s @ [OS_mcommit address sz]\<rparr>"

definition page_decommit_memory_pages :: "state \<Rightarrow> addr \<Rightarrow> state" where
  "page_decommit_memory_pages s page =
     (let extra_page = page + os_page_size s;
          extra_page_size = page_get_size s page - os_page_size s;
          s = os_mdecommit extra_page extra_page_size s
      in page_set page (\<lambda>p. p\<lparr>page_is_decommitted := True\<rparr>) s)"

definition page_commit_memory_pages :: "state \<Rightarrow> addr \<Rightarrow> state" where
  "page_commit_memory_pages s page =
     (let extra_page = page + os_page_size s;
          extra_page_size = page_get_size s page - os_page_size s;
          s = os_mcommit extra_page extra_page_size s
      in page_set page (\<lambda>p. p\<lparr>page_is_decommitted := False\<rparr>) s)"

text \<open>The unlinking of a page from \<^verbatim>\<open>heap->page_available[page->size_class]\<close>, written
  out twice in the source (in \<^verbatim>\<open>page_available_to_free\<close> and in
  \<^verbatim>\<open>page_allocate_block\<close>).\<close>

definition page_available_unlink :: "state \<Rightarrow> addr \<Rightarrow> state" where
  "page_available_unlink s page =
     (let heap = page_heap (pages s page);
          sclass = page_size_class (pages s page)
      in if heap_page_available (heaps s heap) sclass = page then
           heap_set heap (\<lambda>h. h\<lparr>heap_page_available :=
             (heap_page_available h)(sclass := page_next (pages s page))\<rparr>) s
         else
           let s = page_set (page_prev (pages s page))
                     (\<lambda>p. p\<lparr>page_next := page_next (pages s page)\<rparr>) s
           in if page_next (pages s page) \<noteq> 0 then
                page_set (page_next (pages s page))
                  (\<lambda>p. p\<lparr>page_prev := page_prev (pages s page)\<rparr>) s
              else s)"

definition page_available_to_free :: "state \<Rightarrow> addr \<Rightarrow> state" where
  "page_available_to_free s page =
     (let heap = page_heap (pages s page);
          s = page_available_unlink s page;
          s = page_set page (\<lambda>p. p\<lparr>page_is_free := True\<rparr>) s;
          s = page_set page
                (\<lambda>p. p\<lparr>page_next := heap_page_free (heaps s heap) (page_page_type p)\<rparr>) s;
          s = heap_set heap (\<lambda>h. h\<lparr>heap_page_free :=
                (heap_page_free h)(page_page_type (pages s page) := page)\<rparr>) s
      in if page_next (pages s page) \<noteq> 0
         then page_decommit_memory_pages s (page_next (pages s page))
         else s)"

definition page_full_to_available :: "state \<Rightarrow> addr \<Rightarrow> state" where
  "page_full_to_available s page =
     (let heap = page_heap (pages s page);
          s = page_set page
                (\<lambda>p. p\<lparr>page_next := heap_page_available (heaps s heap) (page_size_class p)\<rparr>) s;
          s = (if page_next (pages s page) \<noteq> 0
               then page_set (page_next (pages s page)) (\<lambda>p. p\<lparr>page_prev := page\<rparr>) s
               else s);
          s = heap_set heap (\<lambda>h. h\<lparr>heap_page_available :=
                (heap_page_available h)(page_size_class (pages s page) := page)\<rparr>) s
      in page_set page (\<lambda>p. p\<lparr>page_is_full := False\<rparr>) s)"


text \<open>
  The atomic operations on \<^verbatim>\<open>page->thread_free\<close> and \<^verbatim>\<open>heap->page_free_thread\<close> are
  modelled at the moment their compare-and-swap succeeds: a failed attempt changes
  nothing but the expected value, which the loop body recomputes everything from, so the
  effect of the loop is the effect of one load and one successful exchange on the value
  then stored.
\<close>

definition page_adopt_thread_free_block_list :: "state \<Rightarrow> addr \<Rightarrow> state" where
  "page_adopt_thread_free_block_list s page =
     (let thread_free = page_thread_free (pages s page)
      in if thread_free \<noteq> 0 then
           let s = page_set page (\<lambda>p. p\<lparr>page_thread_free := 0\<rparr>) s;
               (list_count, block) = page_block_from_thread_free_list s page thread_free;
               s = page_set page (\<lambda>p. p\<lparr>page_local_free := block\<rparr>) s;
               s = page_set page (\<lambda>p. p\<lparr>page_local_free_count := list_count\<rparr>) s
           in page_set page
                (\<lambda>p. p\<lparr>page_block_used := page_block_used p - page_local_free_count p\<rparr>) s
         else s)"

definition page_get_thread_free_block :: "state \<Rightarrow> addr \<Rightarrow> addr \<times> state" where
  "page_get_thread_free_block s page =
     (let s = page_adopt_thread_free_block_list s page;
          block = page_local_free (pages s page)
      in if block \<noteq> 0 then
           let s = page_set page (\<lambda>p. p\<lparr>page_local_free := block_next s block\<rparr>) s;
               s = page_set page (\<lambda>p. p\<lparr>page_local_free_count := page_local_free_count p - 1\<rparr>) s;
               s = page_set page (\<lambda>p. p\<lparr>page_block_used := page_block_used p + 1\<rparr>) s
           in (block, s)
         else (block, s))"


definition page_push_local_free_to_heap :: "state \<Rightarrow> addr \<Rightarrow> state" where
  "page_push_local_free_to_heap s page =
     (if page_local_free (pages s page) \<noteq> 0 then
        let s = heap_set (page_heap (pages s page)) (\<lambda>h. h\<lparr>heap_local_free :=
                  (heap_local_free h)(page_size_class (pages s page) :=
                     page_local_free (pages s page))\<rparr>) s;
            s = page_set page
                  (\<lambda>p. p\<lparr>page_block_used := page_block_used p + page_local_free_count p\<rparr>) s;
            s = page_set page (\<lambda>p. p\<lparr>page_local_free := 0\<rparr>) s
        in page_set page (\<lambda>p. p\<lparr>page_local_free_count := 0\<rparr>) s
      else s)"

text \<open>
  The loop of \<^verbatim>\<open>page_initialize_blocks\<close> that links the blocks up to the next memory
  page. It returns the state, \<^verbatim>\<open>last_block\<close> and \<^verbatim>\<open>list_count\<close>. Each round raises
  \<^verbatim>\<open>list_count\<close>, which stays below \<^verbatim>\<open>max_list_count\<close>.
\<close>

function page_initialize_blocks_loop ::
  "state \<Rightarrow> addr \<Rightarrow> uint32_t \<Rightarrow> uint32_t \<Rightarrow> addr \<Rightarrow> addr \<Rightarrow> uint32_t \<Rightarrow> state \<times> addr \<times> uint32_t" where
  "page_initialize_blocks_loop s memory_page_next block_size max_list_count free_block last_block list_count =
     (if free_block < memory_page_next \<and> list_count < max_list_count then
        let last_block = free_block;
            s = block_set_next free_block (free_block + ucast block_size) s;
            free_block = block_next s free_block
        in page_initialize_blocks_loop s memory_page_next block_size max_list_count
             free_block last_block (list_count + 1)
      else (s, last_block, list_count))"
  by pat_completeness auto
termination
proof (relation "measure (\<lambda>(s, memory_page_next, block_size, max_list_count, free_block, last_block, list_count).
                   unat max_list_count - unat list_count)")
  show "wf (measure (\<lambda>(s, memory_page_next, block_size, max_list_count, free_block, last_block, list_count).
                   unat max_list_count - unat list_count))"
    by simp
next
  fix s :: state and memory_page_next :: addr and block_size max_list_count :: uint32_t
    and free_block last_block :: addr and list_count :: uint32_t and x xa xb
  assume a: "free_block < memory_page_next \<and> list_count < max_list_count"
  then have lt: "unat list_count < unat max_list_count" by (simp add: word_less_nat_alt)
  moreover have "unat max_list_count < 2 ^ 32" using unsigned_less [of max_list_count] by simp
  ultimately have "unat (list_count + 1) = unat list_count + 1"
    by (simp add: unat_word_ariths)
  with lt show "((xa, memory_page_next, block_size, max_list_count, xb, x, list_count + 1),
          s, memory_page_next, block_size, max_list_count, free_block, last_block, list_count)
         \<in> measure (\<lambda>(s, memory_page_next, block_size, max_list_count, free_block, last_block, list_count).
                   unat max_list_count - unat list_count)"
    by simp
qed

declare page_initialize_blocks_loop.simps [simp del]

definition page_initialize_blocks :: "state \<Rightarrow> addr \<Rightarrow> addr \<times> state" where
  "page_initialize_blocks s page =
     (let block = page_block s page (page_block_initialized (pages s page));
          s = page_set page (\<lambda>p. p\<lparr>page_block_initialized := page_block_initialized p + 1\<rparr>) s;
          s = page_set page (\<lambda>p. p\<lparr>page_block_used := page_block_used p + 1\<rparr>) s
      in if page_page_type (pages s page) = PAGE_SMALL
            \<and> ucast (page_block_size (pages s page)) < drop_bit 1 (os_page_size s)
         then
           let memory_page_start = block AND NOT (os_page_size s - 1);
               memory_page_next = memory_page_start + os_page_size s;
               free_block = block + ucast (page_block_size (pages s page));
               first_block = free_block;
               max_list_count = page_block_count (pages s page) - page_block_initialized (pages s page);
               (s, last_block, list_count) =
                 page_initialize_blocks_loop s memory_page_next (page_block_size (pages s page))
                   max_list_count free_block free_block 0
           in if list_count \<noteq> 0 then
                let s = block_set_next last_block 0 s;
                    s = page_set page (\<lambda>p. p\<lparr>page_local_free := first_block\<rparr>) s;
                    s = page_set page
                          (\<lambda>p. p\<lparr>page_block_initialized := page_block_initialized p + list_count\<rparr>) s;
                    s = page_set page (\<lambda>p. p\<lparr>page_local_free_count := list_count\<rparr>) s
                in (block, s)
              else (block, s)
         else (block, s))"

definition page_allocate_block :: "state \<Rightarrow> addr \<Rightarrow> bool \<Rightarrow> addr \<times> state" where
  "page_allocate_block s page zero =
     (let (block, s) = page_get_local_free_block s page;
          (block, is_zero, s) =
            (if block = 0 then
               let (block, s) = page_get_thread_free_block s page
               in if block = 0 then
                    let (block, s) = page_initialize_blocks s page
                    in (block, page_is_zero (pages s page), s)
                  else (block, False, s)
             else (block, False, s));
          s = page_push_local_free_to_heap s page;
          s = (if page_block_used (pages s page) = page_block_count (pages s page)
               then page_adopt_thread_free_block_list s page else s);
          s = (if page_block_used (pages s page) = page_block_count (pages s page) then
                 let s = (if \<not> page_is_full (pages s page) then page_available_unlink s page else s);
                     s = page_set page (\<lambda>p. p\<lparr>page_is_full := True\<rparr>) s
                 in page_set page (\<lambda>p. p\<lparr>page_is_zero := False\<rparr>) s
               else s);
          s = (if zero \<and> \<not> is_zero \<and> block \<noteq> 0
               then memset block 0 (ucast (page_block_size (pages s page))) s else s)
      in (block, s))"



subsection \<open>Zero-initialised objects and the state at program start\<close>





subsection \<open>Predicates the claims are stated with\<close>





subsection \<open>A page in use\<close>






section \<open>Size-class dispatch (claim C1)\<close>

lemma class_size_list:
  "map (\<lambda>c. unat (size_class_block_size c)) global_size_class =
   map (\<lambda>j. if j = 0 then 32 else if j \<le> 16 then 32 * j else 32 * (4 + j mod 4) * 2 ^ (j div 4 - 2)) [0..<73]"
  by (simp add: global_size_class_def SCLASS_def MCLASS_def LCLASS_def SMALL_GRANULARITY_def upt_rec)

lemma length_global_size_class: "length global_size_class = 73"
  by (simp add: global_size_class_def)

lemma class_size_formula:
  assumes "j < 73"
  shows "class_size j = (if j = 0 then 32 else if j \<le> 16 then 32 * j else 32 * (4 + j mod 4) * 2 ^ (j div 4 - 2))"
proof -
  have "class_size j = map (\<lambda>c. unat (size_class_block_size c)) global_size_class ! j"
    using assms by (simp add: class_size_def length_global_size_class)
  also have "\<dots> = map (\<lambda>j. if j = 0 then 32 else if j \<le> 16 then 32 * j else 32 * (4 + j mod 4) * 2 ^ (j div 4 - 2)) [0..<73] ! j"
    by (simp only: class_size_list)
  also have "\<dots> = (if j = 0 then 32 else if j \<le> 16 then 32 * j else 32 * (4 + j mod 4) * 2 ^ (j div 4 - 2))"
    using assms by (simp del: upt_Suc)
  finally show ?thesis .
qed

lemma bit_imp_le_unat:
  fixes x :: "64 word"
  assumes "bit x n"
  shows "2 ^ n \<le> unat x"
proof -
  have "bit (unat x) n" using assms by (simp add: bit_unsigned_iff)
  then have "odd (unat x div 2 ^ n)" by (simp add: bit_iff_odd)
  then have "unat x div 2 ^ n \<noteq> 0" by (metis even_zero)
  then show ?thesis by (metis div_less not_le_imp_less)
qed

lemma not_bit_imp_less:
  fixes x :: "64 word"
  assumes "\<not> bit x n" and "unat x < 2 ^ Suc n"
  shows "unat x < 2 ^ n"
proof (rule ccontr)
  assume "\<not> unat x < 2 ^ n"
  then have ge: "2 ^ n \<le> unat x" by simp
  have "unat x div 2 ^ n < 2"
    using assms(2) by (simp add: less_mult_imp_div_less)
  moreover have "1 \<le> unat x div 2 ^ n"
    using ge by (simp add: div_greater_zero_iff Suc_le_eq)
  ultimately have "unat x div 2 ^ n = 1" by simp
  then have "bit (unat x) n" by (simp add: bit_iff_odd)
  then have "bit x n" by (simp add: bit_unsigned_iff)
  with assms(1) show False by simp
qed

lemma leading_zeros_bounds:
  "unat x < 2 ^ n \<Longrightarrow> x \<noteq> 0 \<Longrightarrow>
     leading_zeros n x < n \<and> 2 ^ (n - 1 - leading_zeros n x) \<le> unat x
       \<and> unat x < 2 ^ (n - leading_zeros n x)"
proof (induction n)
  case 0
  then show ?case by (simp add: unat_eq_0)
next
  case (Suc n)
  show ?case
  proof (cases "bit x n")
    case True
    then show ?thesis using Suc.prems bit_imp_le_unat [of x n] by simp
  next
    case False
    then have "unat x < 2 ^ n" using Suc.prems not_bit_imp_less by blast
    from Suc.IH [OF this Suc.prems(2)] False show ?thesis by simp
  qed
qed


lemma msb_quotient:
  fixes m k :: nat
  assumes "2 \<le> k" and "2 ^ k \<le> m" and "m < 2 ^ Suc k"
  shows "(4 + (m div 2 ^ (k - 2)) mod 4) * 2 ^ (k - 2) \<le> m
       \<and> m < (5 + (m div 2 ^ (k - 2)) mod 4) * 2 ^ (k - 2)"
proof -
  define p :: nat where "p = 2 ^ (k - 2)"
  define q where "q = m div p"
  have p_pos: "0 < p" by (simp add: p_def)
  have k_eq: "(2::nat) ^ k = 4 * p"
  proof -
    obtain j where "k = j + 2" using assms(1) by (metis le_add_diff_inverse2)
    then show ?thesis by (simp add: p_def)
  qed
  have lo: "4 \<le> q"
  proof -
    have "4 * p \<le> m" using assms(2) k_eq by simp
    then have "4 * p div p \<le> m div p" by (rule div_le_mono)
    then show ?thesis using p_pos by (simp add: q_def)
  qed
  have hi: "q < 8"
  proof -
    have "m < 8 * p" using assms(3) k_eq by simp
    then show ?thesis using p_pos by (simp add: q_def less_mult_imp_div_less)
  qed
  have qmod: "4 + q mod 4 = q" using lo hi by presburger
  have a: "q * p \<le> m" by (simp add: q_def)
  have b: "m < Suc q * p"
    using p_pos by (metis q_def dividend_less_div_times mult.commute mult_Suc add.commute)
  have "5 + q mod 4 = Suc (4 + q mod 4)" by simp
  then have c: "5 + q mod 4 = Suc q" by (simp only: qmod)
  have "(4 + q mod 4) * p \<le> m" using a by (simp only: qmod)
  moreover have "m < (5 + q mod 4) * p" using b by (simp only: c)
  ultimately show ?thesis by (simp only: p_def q_def)
qed

lemma class_size_sorted:
  "sorted (map (\<lambda>c. unat (size_class_block_size c)) global_size_class)"
proof -
  have "map (\<lambda>c. unat (size_class_block_size c)) global_size_class =
    [32, 32, 64, 96, 128, 160, 192, 224, 256, 288, 320, 352, 384, 416, 448,
     480, 512, 640, 768, 896, 1024, 1280, 1536, 1792, 2048, 2560, 3072,
     3584, 4096, 5120, 6144, 7168, 8192, 10240, 12288, 14336, 16384, 20480,
     24576, 28672, 32768, 40960, 49152, 57344, 65536, 81920, 98304, 114688,
     131072, 163840, 196608, 229376, 262144, 327680, 393216, 458752, 524288,
     655360, 786432, 917504, 1048576, 1310720, 1572864, 1835008, 2097152,
     2621440, 3145728, 3670016, 4194304, 5242880, 6291456, 7340032, 8388608]"
    by (simp add: global_size_class_def SCLASS_def MCLASS_def LCLASS_def SMALL_GRANULARITY_def)
  moreover have "sorted
    [32, 32, 64, 96, 128, 160, 192, 224, 256, 288, 320, 352, 384, 416, 448,
     480, 512, 640, 768, 896, 1024, 1280, 1536, 1792, 2048, 2560, 3072,
     3584, 4096, 5120, 6144, 7168, 8192, 10240, 12288, 14336, 16384, 20480,
     24576, 28672, 32768, 40960, 49152, 57344, 65536, 81920, 98304, 114688,
     131072, 163840, 196608, 229376, 262144, 327680, 393216, 458752, 524288,
     655360, 786432, 917504, 1048576, 1310720, 1572864, 1835008, 2097152,
     2621440, 3145728, 3670016, 4194304, 5242880, 6291456, 7340032, (8388608::nat)]"
    apply (simp only: sorted2 sorted1)
    apply simp
    done
  ultimately show ?thesis by (simp only:)
qed

lemma class_size_mono:
  assumes "i \<le> j" and "j < 73"
  shows "class_size i \<le> class_size j"
  using sorted_nth_mono [OF class_size_sorted, of i j] assms
  by (simp add: class_size_def length_global_size_class)

lemma get_size_class_small:
  fixes sz :: size_t
  assumes "unat sz \<le> 512"
  shows "unat (get_size_class sz) = max ((unat sz + 31) div 32) 1"
    and "unat (get_size_class_tiny sz) = (unat sz + 31) div 32"
proof -
  have le: "sz \<le> 512" using assms by (simp add: word_le_nat_alt)
  have u: "unat (sz + 31) = unat sz + 31"
    using assms by (simp add: unat_word_ariths)
  have d: "unat ((sz + 31) div 32) = (unat sz + 31) div 32"
    by (simp add: unat_div u)
  have z: "((sz + 31) div 32 = 0) = ((unat sz + 31) div 32 = 0)"
    using d by (metis unat_eq_0)
  have small: "(unat sz + 31) div 32 < 2 ^ 32" using assms by simp
  have uc: "unat (ucast ((sz + 31) div 32) :: 32 word) = (unat sz + 31) div 32"
    using small d by (simp add: unsigned_ucast_eq take_bit_nat_eq_self)
  show "unat (get_size_class sz) = max ((unat sz + 31) div 32) 1"
    using le uc z by (auto simp add: get_size_class_def SMALL_GRANULARITY_def Let_def)
  have t: "unat (ucast sz :: 32 word) = unat sz"
    using assms by (simp add: unsigned_ucast_eq take_bit_nat_eq_self)
  have "unat ((ucast sz :: 32 word) + 31) = unat sz + 31"
    using assms t by (simp add: unat_word_ariths)
  then show "unat (get_size_class_tiny sz) = (unat sz + 31) div 32"
    by (simp add: get_size_class_tiny_def SMALL_GRANULARITY_def unat_div)
qed

lemma minblock_count_large:
  fixes sz :: size_t
  assumes "512 < unat sz"
  shows "16 \<le> unat ((sz + 31) div 32 - 1)"
    and "unat sz + 31 < 2 ^ 64 \<Longrightarrow> unat ((sz + 31) div 32 - 1) = (unat sz + 31) div 32 - 1"
    and "\<not> unat sz + 31 < 2 ^ 64 \<Longrightarrow> unat ((sz + 31) div 32 - 1) = 2 ^ 64 - 1"
proof -
  have lt: "unat sz < 2 ^ 64" using unsigned_less [of sz] by simp
  have a: "unat sz + 31 < 2 ^ 64 \<Longrightarrow> unat ((sz + 31) div 32 - 1) = (unat sz + 31) div 32 - 1"
  proof -
    assume nw: "unat sz + 31 < 2 ^ 64"
    then have u: "unat (sz + 31) = unat sz + 31" by (simp add: unat_word_ariths)
    have d: "unat ((sz + 31) div 32) = (unat sz + 31) div 32" by (simp add: unat_div u)
    have "1 \<le> (unat sz + 31) div 32" using assms by simp
    then have "1 \<le> (sz + 31) div 32" using d by (simp add: word_le_nat_alt)
    then have "unat ((sz + 31) div 32 - 1) = unat ((sz + 31) div 32) - unat (1 :: 64 word)"
      by (rule unat_sub)
    then show ?thesis using d by simp
  qed
  have b: "\<not> unat sz + 31 < 2 ^ 64 \<Longrightarrow> unat ((sz + 31) div 32 - 1) = 2 ^ 64 - 1"
  proof -
    assume w: "\<not> unat sz + 31 < 2 ^ 64"
    have "unat (sz + 31) = (unat sz + 31) mod 2 ^ 64" by (simp add: unat_word_ariths)
    also have "\<dots> = unat sz + 31 - 2 ^ 64"
      using w lt by (simp add: mod_if)
    finally have "unat (sz + 31) < 32" using lt by simp
    then have "unat ((sz + 31) div 32) = 0" by (simp add: unat_div)
    then have "(sz + 31) div 32 = 0" by (simp add: unat_eq_0)
    then show ?thesis by (simp add: unsigned_minus_1_eq_mask mask_eq_exp_minus_1)
  qed
  show "unat sz + 31 < 2 ^ 64 \<Longrightarrow> unat ((sz + 31) div 32 - 1) = (unat sz + 31) div 32 - 1" by (rule a)
  show "\<not> unat sz + 31 < 2 ^ 64 \<Longrightarrow> unat ((sz + 31) div 32 - 1) = 2 ^ 64 - 1" by (rule b)
  show "16 \<le> unat ((sz + 31) div 32 - 1)"
  proof (cases "unat sz + 31 < 2 ^ 64")
    case True
    then show ?thesis using a assms by simp
  next
    case False
    then show ?thesis using b by simp
  qed
qed

lemma get_size_class_large:
  fixes sz :: size_t
  assumes "512 < unat sz"
  defines "m \<equiv> unat ((sz + 31) div 32 - 1)"
  defines "k \<equiv> 63 - leading_zeros 64 ((sz + 31) div 32 - 1)"
  shows "4 \<le> k" and "k \<le> 63" and "2 ^ k \<le> m" and "m < 2 ^ Suc k"
    and "unat (get_size_class sz) = 4 * k + (m div 2 ^ (k - 2)) mod 4 + 1"
proof -
  define w where "w = (sz + 31) div 32 - 1"
  define lz where "lz = leading_zeros 64 w"
  have m16: "16 \<le> m" unfolding m_def using minblock_count_large(1) [OF assms(1)] .
  then have wnz: "w \<noteq> 0" unfolding m_def w_def by auto
  have "unat w < 2 ^ 64" using unsigned_less [of w] by simp
  from leading_zeros_bounds [OF this wnz]
  have lz: "lz < 64" and lo: "2 ^ (63 - lz) \<le> unat w" and hi: "unat w < 2 ^ (64 - lz)"
    by (simp_all add: lz_def)
  have k: "k = 63 - lz" by (simp add: k_def lz_def w_def)
  show k63: "k \<le> 63" by (simp add: k)
  show lo': "2 ^ k \<le> m" using lo by (simp add: k m_def w_def)
  have "64 - lz = Suc k" using lz by (simp add: k)
  then show hi': "m < 2 ^ Suc k" using hi by (simp add: m_def w_def)
  show k4: "4 \<le> k"
  proof (rule ccontr)
    assume "\<not> 4 \<le> k"
    then have "Suc k \<le> 4" by simp
    then have "(2::nat) ^ Suc k \<le> 2 ^ 4" by (rule power_increasing) simp
    with hi' m16 show False by simp
  qed
  have clz: "sint (ucast (rpmalloc_clz w) :: 32 word) = int lz"
  proof -
    have "unat (rpmalloc_clz w) = lz"
      using lz by (simp add: rpmalloc_clz_def lz_def unat_of_nat)
    then have "unat (ucast (rpmalloc_clz w) :: 32 word) = lz"
      using lz by (simp add: unsigned_ucast_eq take_bit_nat_eq_self)
    then have "(ucast (rpmalloc_clz w) :: 32 word) = of_nat lz"
      by (metis of_nat_unat ucast_id)
    moreover have "sint (of_nat lz :: 32 word) = int lz"
      using lz by (simp add: signed_of_nat signed_take_bit_int_eq_self)
    ultimately show ?thesis by simp
  qed
  have msb: "(word_of_int (63 - int lz) :: 32 word) = of_nat k"
    using lz by (simp add: k of_nat_diff)
  have umsb: "unat (of_nat k - 2 :: 32 word) = k - 2"
  proof -
    have "(of_nat k - 2 :: 32 word) = of_nat (k - 2)" using k4 by (simp add: of_nat_diff)
    then show ?thesis using k63 by (simp add: unat_of_nat)
  qed
  define s where "s = (m div 2 ^ (k - 2)) mod 4"
  have sub: "unat (ucast (drop_bit (k - 2) w AND 3) :: 32 word) = s"
  proof -
    have "drop_bit (k - 2) w AND 3 = take_bit 2 (drop_bit (k - 2) w)"
      by (simp add: take_bit_eq_mask mask_numeral)
    then have "unat (drop_bit (k - 2) w AND 3) = unat (drop_bit (k - 2) w) mod 4"
      by (simp add: take_bit_eq_mod unat_mod)
    moreover have "unat (drop_bit (k - 2) w) = unat w div 2 ^ (k - 2)"
      by (simp only: unat_drop_bit_eq) (simp only: drop_bit_eq_div)
    ultimately have "unat (drop_bit (k - 2) w AND 3) = s"
      by (simp only: s_def m_def w_def)
    moreover have "s < 4" by (simp add: s_def)
    ultimately show ?thesis by (simp add: unsigned_ucast_eq take_bit_nat_eq_self)
  qed
  have s4: "s < 4" by (simp add: s_def)
  have "unat (push_bit 2 (of_nat k :: 32 word) + ucast (drop_bit (k - 2) w AND 3) + 1) = 4 * k + s + 1"
  proof -
    have "push_bit 2 (of_nat k :: 32 word) = of_nat (4 * k)" by (simp add: push_bit_eq_mult)
    moreover have "(ucast (drop_bit (k - 2) w AND 3) :: 32 word) = of_nat s"
      using sub by (metis of_nat_unat ucast_id)
    ultimately have "push_bit 2 (of_nat k :: 32 word) + ucast (drop_bit (k - 2) w AND 3) + 1
        = of_nat (4 * k + s + 1)" by simp
    then have "unat (push_bit 2 (of_nat k :: 32 word) + ucast (drop_bit (k - 2) w AND 3) + 1)
        = (4 * k + s + 1) mod 2 ^ 32" by (simp only: unat_of_nat) simp
    moreover have "4 * k + s + 1 < 2 ^ 32" using k63 s4 by simp
    ultimately show ?thesis by (simp only: mod_less)
  qed
  note final = this
  have nle: "\<not> sz \<le> 512" using assms(1) by (simp add: word_le_nat_alt)
  have msbw: "(word_of_int (63 - sint (ucast (rpmalloc_clz w) :: 32 word)) :: 32 word) = of_nat k"
    using msb by (simp only: clz)
  have gs: "get_size_class sz =
      push_bit 2 (word_of_int (63 - sint (ucast (rpmalloc_clz w) :: 32 word)) :: 32 word)
      + ucast (drop_bit (unat ((word_of_int (63 - sint (ucast (rpmalloc_clz w) :: 32 word)) :: 32 word) - 2)) w AND 3)
      + 1"
    using nle by (simp add: get_size_class_def SMALL_GRANULARITY_def Let_def w_def)
  show "unat (get_size_class sz) = 4 * k + (m div 2 ^ (k - 2)) mod 4 + 1"
    using final by (simp only: gs msbw umsb s_def)
qed

lemma class_size_subclass:
  assumes "4 \<le> k" and "k \<le> 17" and "s < 4"
  shows "class_size (4 * k + s + 1) = 32 * (5 + s) * 2 ^ (k - 2)"
    and "class_size (4 * k + s) = 32 * (4 + s) * 2 ^ (k - 2)"
proof -
  obtain j where k: "k = j + 2" using assms(1) by (metis le_add_diff_inverse2 add_leE numeral_Bit0 add.commute)
  have c73: "4 * k + s + 1 < 73" using assms by simp
  consider "s = 0" | "s = 1" | "s = 2" | "s = 3" using assms(3) by linarith
  then show "class_size (4 * k + s + 1) = 32 * (5 + s) * 2 ^ (k - 2)"
  proof cases
    case 1
    then have "(4 * k + s + 1) mod 4 = 1" "(4 * k + s + 1) div 4 = k" by presburger+
    then show ?thesis using class_size_formula [OF c73] assms 1 by simp
  next
    case 2
    then have "(4 * k + s + 1) mod 4 = 2" "(4 * k + s + 1) div 4 = k" by presburger+
    then show ?thesis using class_size_formula [OF c73] assms 2 by simp
  next
    case 3
    then have "(4 * k + s + 1) mod 4 = 3" "(4 * k + s + 1) div 4 = k" by presburger+
    then show ?thesis using class_size_formula [OF c73] assms 3 by simp
  next
    case 4
    then have "(4 * k + s + 1) mod 4 = 0" "(4 * k + s + 1) div 4 = k + 1" by presburger+
    then show ?thesis using class_size_formula [OF c73] assms 4 by (simp add: k)
  qed
  have c73': "4 * k + s < 73" using assms by simp
  have md: "(4 * k + s) mod 4 = s" "(4 * k + s) div 4 = k" using assms(3) by simp_all
  show "class_size (4 * k + s) = 32 * (4 + s) * 2 ^ (k - 2)"
  proof (cases "4 * k + s \<le> 16")
    case True
    then have "k = 4" "s = 0" using assms by simp_all
    then show ?thesis using class_size_formula [of 16] by simp
  next
    case False
    then have nz: "\<not> 4 * k + s = 0" by linarith
    have "class_size (4 * k + s) = 32 * (4 + (4 * k + s) mod 4) * 2 ^ ((4 * k + s) div 4 - 2)"
      using class_size_formula [OF c73'] by (simp only: nz False if_False)
    then show ?thesis by (simp only: md)
  qed
qed

lemma ceil_div_upper:
  fixes n :: nat
  shows "n \<le> 32 * ((n + 31) div 32)"
proof -
  have gen: "n \<le> 32 * q" if "r < 32" and "32 * q + r = n + 31" for q r :: nat
    using that by simp
  have "(n + 31) mod 32 < 32" by simp
  moreover have "32 * ((n + 31) div 32) + (n + 31) mod 32 = n + 31" by (rule mult_div_mod_eq)
  ultimately show ?thesis by (rule gen)
qed

lemma ceil_div_lower:
  fixes n c :: nat
  assumes "c < (n + 31) div 32"
  shows "32 * c < n"
proof -
  have gen: "32 * c < n" if "32 * q + r = n + 31" and "32 * (c + 1) \<le> 32 * q" for q r :: nat
    using that by simp
  have "32 * ((n + 31) div 32) + (n + 31) mod 32 = n + 31" by (rule mult_div_mod_eq)
  moreover have "32 * (c + 1) \<le> 32 * ((n + 31) div 32)" using assms by simp
  ultimately show ?thesis by (rule gen)
qed

lemma ceil_div_bounds:
  fixes n :: nat
  assumes "0 < n"
  shows "32 * ((n + 31) div 32 - 1) < n" and "n \<le> 32 * ((n + 31) div 32 - 1) + 32"
proof -
  have pos: "(n + 31) div 32 - 1 < (n + 31) div 32" using assms by simp
  then show "32 * ((n + 31) div 32 - 1) < n" by (rule ceil_div_lower)
  have "32 * ((n + 31) div 32 - 1) + 32 = 32 * ((n + 31) div 32)" using pos by simp
  then show "n \<le> 32 * ((n + 31) div 32 - 1) + 32" using ceil_div_upper [of n] by simp
qed

lemma get_size_class_large_fits:
  fixes sz :: size_t
  assumes "512 < unat sz" and "unat (get_size_class sz) < 73"
  shows "unat sz \<le> class_size (unat (get_size_class sz))"
    and "class_size (unat (get_size_class sz) - 1) < unat sz"
    and "unat sz \<le> 8388608"
    and "17 \<le> unat (get_size_class sz)"
proof -
  define m where "m = unat ((sz + 31) div 32 - 1)"
  define k where "k = 63 - leading_zeros 64 ((sz + 31) div 32 - 1)"
  define s where "s = (m div 2 ^ (k - 2)) mod 4"
  note L = get_size_class_large [OF assms(1), folded m_def k_def]
  have c: "unat (get_size_class sz) = 4 * k + s + 1" using L(5) by (simp add: s_def)
  have s4: "s < 4" by (simp add: s_def)
  have k4: "4 \<le> k" by (rule L(1))
  have k17: "k \<le> 17" using assms(2) c by simp
  have "Suc k \<le> 18" using k17 by simp
  then have "(2::nat) ^ Suc k \<le> 2 ^ 18" by (rule power_increasing) simp
  then have m18: "m < 2 ^ 18" using L(4) by simp
  have nowrap: "unat sz + 31 < 2 ^ 64"
  proof (rule ccontr)
    assume "\<not> unat sz + 31 < 2 ^ 64"
    from minblock_count_large(3) [OF assms(1) this] m18 show False by (simp add: m_def)
  qed
  have m: "m = (unat sz + 31) div 32 - 1"
    using minblock_count_large(2) [OF assms(1) nowrap] by (simp add: m_def)
  have pos: "0 < unat sz" using assms(1) by simp
  have lo: "32 * m < unat sz" and hi: "unat sz \<le> 32 * m + 32"
    using ceil_div_bounds [OF pos] by (simp_all add: m)
  have "2 \<le> k" using k4 by simp
  from msb_quotient [OF this L(3) L(4)]
  have q1: "(4 + s) * 2 ^ (k - 2) \<le> m" and q2: "m < (5 + s) * 2 ^ (k - 2)"
    by (simp_all add: s_def)
  have "unat sz \<le> 32 * ((5 + s) * 2 ^ (k - 2))" using q2 hi by simp
  moreover have "class_size (unat (get_size_class sz)) = 32 * (5 + s) * 2 ^ (k - 2)"
    by (simp only: c class_size_subclass(1) [OF k4 k17 s4])
  ultimately show "unat sz \<le> class_size (unat (get_size_class sz))"
    by (simp only: mult.assoc)
  have "32 * ((4 + s) * 2 ^ (k - 2)) < unat sz" using q1 lo by simp
  moreover have "unat (get_size_class sz) - 1 = 4 * k + s" by (simp add: c)
  then have "class_size (unat (get_size_class sz) - 1) = 32 * (4 + s) * 2 ^ (k - 2)"
    by (simp only: class_size_subclass(2) [OF k4 k17 s4])
  ultimately show "class_size (unat (get_size_class sz) - 1) < unat sz"
    by (simp only: mult.assoc)
  show "unat sz \<le> 8388608" using hi m18 by simp
  show "17 \<le> unat (get_size_class sz)" using k4 by (simp add: c)
qed

lemma get_size_class_large_huge:
  fixes sz :: size_t
  assumes "512 < unat sz" and "\<not> unat (get_size_class sz) < 73"
  shows "8388608 < unat sz"
proof -
  define m where "m = unat ((sz + 31) div 32 - 1)"
  define k where "k = 63 - leading_zeros 64 ((sz + 31) div 32 - 1)"
  define s where "s = (m div 2 ^ (k - 2)) mod 4"
  note L = get_size_class_large [OF assms(1), folded m_def k_def]
  have c: "unat (get_size_class sz) = 4 * k + s + 1" using L(5) by (simp add: s_def)
  have s4: "s < 4" by (simp add: s_def)
  have "18 \<le> k" using assms(2) c s4 by simp
  then have "(2::nat) ^ 18 \<le> 2 ^ k" by (rule power_increasing) simp
  then have m18: "2 ^ 18 \<le> m" using L(3) by simp
  show ?thesis
  proof (cases "unat sz + 31 < 2 ^ 64")
    case True
    have "m = (unat sz + 31) div 32 - 1"
      using minblock_count_large(2) [OF assms(1) True] by (simp add: m_def)
    with m18 show ?thesis by simp
  next
    case False
    then show ?thesis by simp
  qed
qed

lemma get_size_class_small_fits:
  fixes sz :: size_t
  assumes "unat sz \<le> 512"
  shows "unat (get_size_class sz) < 73"
    and "1 \<le> unat (get_size_class sz)"
    and "unat sz \<le> class_size (unat (get_size_class sz))"
    and "1 \<le> c \<Longrightarrow> c < unat (get_size_class sz) \<Longrightarrow> class_size c < unat sz"
proof -
  define g where "g = unat (get_size_class sz)"
  define d where "d = (unat sz + 31) div 32"
  have g: "g = max d 1"
    using get_size_class_small(1) [OF assms] by (simp only: g_def d_def)
  have d16: "d \<le> 16" using assms by (simp add: d_def)
  have g16: "g \<le> 16" using d16 by (simp add: g)
  have g1: "1 \<le> g" by (simp add: g)
  have dg: "d \<le> g" by (simp add: g)
  show "unat (get_size_class sz) < 73" using g16 unfolding g_def by simp
  show "1 \<le> unat (get_size_class sz)" using g1 unfolding g_def .
  have g73: "g < 73" using g16 by simp
  have gnz: "\<not> g = 0" using g1 by simp
  have "class_size g = 32 * g"
    using class_size_formula [OF g73] by (simp only: gnz g16 if_True if_False)
  moreover have "unat sz \<le> 32 * d" unfolding d_def by (rule ceil_div_upper)
  moreover have "32 * d \<le> 32 * g" using dg by simp
  ultimately have "unat sz \<le> class_size g" by simp
  then show "unat sz \<le> class_size (unat (get_size_class sz))" by (simp only: g_def)
  assume c: "1 \<le> c" "c < unat (get_size_class sz)"
  then have cg: "c < g" by (simp only: g_def)
  have c73: "c < 73" and c16: "c \<le> 16" and cnz: "\<not> c = 0" using cg g16 c(1) by simp_all
  have cs: "class_size c = 32 * c"
    using class_size_formula [OF c73] by (simp only: cnz c16 if_True if_False)
  have "c < d" using cg c(1) by (simp add: g max_def split: if_splits)
  then have "32 * c < unat sz" unfolding d_def by (rule ceil_div_lower)
  then show "class_size c < unat sz" by (simp only: cs)
qed

text \<open>
  Claim C1, as amended. For every request size \<open>sz\<close>: \<^verbatim>\<open>get_size_class\<close> returns an
  index of at least 1; the index is below \<^verbatim>\<open>SIZE_CLASS_COUNT\<close> (73) exactly when
  \<open>sz\<close> is at most 8 MiB, and otherwise the request is huge; an index below 73 is the
  smallest class among the classes 1..72 whose block size is at least \<open>sz\<close> (class 0
  duplicates the block size of class 1 and is never returned by \<^verbatim>\<open>get_size_class\<close>);
  for \<open>sz \<le> 16 * 32\<close> the index is \<open>max (ceil (sz / 32)) 1\<close>, while the tiny dispatch
  path \<^verbatim>\<open>get_size_class_tiny\<close> returns \<open>ceil (sz / 32)\<close>, which is class 0 at
  \<open>sz = 0\<close>.
\<close>

theorem get_size_class_smallest_class_from_one:
  fixes sz :: size_t
  shows "1 \<le> unat (get_size_class sz)
    \<and> (get_size_class sz < SIZE_CLASS_COUNT \<longleftrightarrow> unat sz \<le> 8 * 1024 * 1024)
    \<and> (get_size_class sz < SIZE_CLASS_COUNT \<longrightarrow>
          unat sz \<le> unat (size_class_block_size (global_size_class ! unat (get_size_class sz)))
        \<and> (\<forall>c. 1 \<le> c \<and> c < unat (get_size_class sz) \<longrightarrow>
               unat (size_class_block_size (global_size_class ! c)) < unat sz))
    \<and> (unat sz \<le> 16 * 32 \<longrightarrow>
          unat (get_size_class sz) = max ((unat sz + 31) div 32) 1
        \<and> unat (get_size_class_tiny sz) = (unat sz + 31) div 32)"
proof -
  have lt: "get_size_class sz < SIZE_CLASS_COUNT \<longleftrightarrow> unat (get_size_class sz) < 73"
    by (simp add: SIZE_CLASS_COUNT_def SMALL_SIZE_CLASS_COUNT_def MEDIUM_SIZE_CLASS_COUNT_def
        LARGE_SIZE_CLASS_COUNT_def word_less_nat_alt)
  show ?thesis
  proof (cases "unat sz \<le> 512")
    case True
    note S = get_size_class_small_fits [OF True]
    have "\<forall>c. 1 \<le> c \<and> c < unat (get_size_class sz) \<longrightarrow> class_size c < unat sz"
      using S(4) by blast
    then show ?thesis
      using True S(1,2,3) get_size_class_small [OF True]
      by (simp add: lt class_size_def)
  next
    case False
    then have big: "512 < unat sz" by simp
    show ?thesis
    proof (cases "unat (get_size_class sz) < 73")
      case True
      note F = get_size_class_large_fits [OF big True]
      have "\<forall>c. 1 \<le> c \<and> c < unat (get_size_class sz) \<longrightarrow> class_size c < unat sz"
      proof (intro allI impI)
        fix c assume c: "1 \<le> c \<and> c < unat (get_size_class sz)"
        then have "c \<le> unat (get_size_class sz) - 1" by linarith
        moreover have "unat (get_size_class sz) - 1 < 73" using True by simp
        ultimately have "class_size c \<le> class_size (unat (get_size_class sz) - 1)"
          by (rule class_size_mono)
        then show "class_size c < unat sz" using F(2) by simp
      qed
      then show ?thesis using True F big by (simp add: lt class_size_def)
    next
      case nh: False
      have "8388608 < unat sz" by (rule get_size_class_large_huge [OF big nh])
      then show ?thesis using nh big by (simp add: lt)
    qed
  qed
qed

text \<open>The theorem at the request size 100: class 4 (128 bytes), and class 3 (96 bytes) is too small.\<close>

theorem get_size_class_smallest_class_from_one_witness:
  "get_size_class 100 = 4 \<and> get_size_class_tiny 100 = 4
   \<and> get_size_class 100 < SIZE_CLASS_COUNT
   \<and> unat (100 :: size_t) \<le> unat (size_class_block_size (global_size_class ! 4))
   \<and> unat (size_class_block_size (global_size_class ! 3)) < unat (100 :: size_t)"
proof -
  have a: "get_size_class 100 = 4 \<and> get_size_class_tiny 100 = 4"
    by (simp add: get_size_class_def get_size_class_tiny_def SMALL_GRANULARITY_def)
  have b: "get_size_class 100 < SIZE_CLASS_COUNT"
    by (simp add: a SIZE_CLASS_COUNT_def SMALL_SIZE_CLASS_COUNT_def MEDIUM_SIZE_CLASS_COUNT_def
        LARGE_SIZE_CLASS_COUNT_def)
  have c: "(1::nat) \<le> 3 \<and> 3 < unat (get_size_class 100)" by (simp add: a)
  show ?thesis
    using get_size_class_smallest_class_from_one [of 100] a b c by simp
qed

text \<open>
  Claim C1 as stated fails at two inputs. The tiny dispatch path maps the size 0 to class
  0, not to \<open>max (ceil (0 / 32)) 1 = 1\<close>. And \<^verbatim>\<open>get_size_class 1\<close> is class 1 although
  class 0, a smaller index, has a block size of 32 bytes, which already holds 1 byte.
\<close>

theorem size_class_zero_counterexample:
  "get_size_class_tiny 0 = 0
   \<and> max ((unat (0 :: size_t) + 31) div 32) 1 = 1
   \<and> get_size_class 1 = 1
   \<and> unat (1 :: size_t) \<le> unat (size_class_block_size (global_size_class ! 0))"
  by (simp add: get_size_class_tiny_def get_size_class_def SMALL_GRANULARITY_def
      global_size_class_def SCLASS_def)

section \<open>The thread-free word (claim C10)\<close>

lemma mask32: "(0xFFFFFFFF :: 64 word) = mask 32"
  by (simp add: mask_eq_exp_minus_1)

lemma thread_free_index_field:
  fixes block_index list_count :: uint32_t
  shows "(ucast ((push_bit 32 (ucast list_count :: uint64_t) OR ucast block_index) AND 0xFFFFFFFF) :: uint32_t)
         = block_index"
  unfolding mask32
  by (rule bit_word_eqI) (auto simp add: bit_simps)

lemma thread_free_count_field:
  fixes block_index list_count :: uint32_t
  shows "(ucast (drop_bit 32 (push_bit 32 (ucast list_count :: uint64_t) OR ucast block_index) AND 0xFFFFFFFF) :: uint32_t)
         = list_count"
  unfolding mask32
  by (rule bit_word_eqI) (auto simp add: bit_simps dest: bit_imp_le_length)

text \<open>
  Claim C10. Decoding the word that \<^verbatim>\<open>page_block_to_thread_free_list\<close> builds from a block
  index and a list count gives the count back and, when the count is not 0, the head block
  \<^verbatim>\<open>page_block(page, block_index)\<close>; when the count is 0 the decoded head is the null
  pointer whatever the index field holds, and so the all-zero word decodes to the empty
  list.
\<close>

theorem thread_free_list_round_trip:
  "page_block_from_thread_free_list s page (page_block_to_thread_free_list page block_index list_count)
     = (list_count, if list_count = 0 then 0 else page_block s page block_index)
   \<and> page_block_from_thread_free_list s page (page_block_to_thread_free_list page block_index 0) = (0, 0)
   \<and> page_block_from_thread_free_list s page 0 = (0, 0)"
  unfolding page_block_from_thread_free_list_def page_block_to_thread_free_list_def Let_def
    thread_free_index_field thread_free_count_field
  by simp

section \<open>Page operations: what they change\<close>

lemma state_frame [simp]:
  "spans (page_set p f s) = spans s"
  "heaps (page_set p f s) = heaps s"
  "block_next (page_set p f s) = block_next s"
  "bytes (page_set p f s) = bytes s"
  "global_heap_default (page_set p f s) = global_heap_default s"
  "global_heap_queue (page_set p f s) = global_heap_queue s"
  "global_heap_lock (page_set p f s) = global_heap_lock s"
  "global_heap_id (page_set p f s) = global_heap_id s"
  "global_memory_interface (page_set p f s) = global_memory_interface s"
  "os_map_granularity (page_set p f s) = os_map_granularity s"
  "os_page_size (page_set p f s) = os_page_size s"
  "global_thread_heap (page_set p f s) = global_thread_heap s"
  "errno (page_set p f s) = errno s"
  "sysconf_pagesize (page_set p f s) = sysconf_pagesize s"
  "os_mmap_results (page_set p f s) = os_mmap_results s"
  "os_calls (page_set p f s) = os_calls s"
  "pages (span_set p g s) = pages s"
  "heaps (span_set p g s) = heaps s"
  "block_next (span_set p g s) = block_next s"
  "bytes (span_set p g s) = bytes s"
  "global_heap_default (span_set p g s) = global_heap_default s"
  "global_heap_queue (span_set p g s) = global_heap_queue s"
  "global_heap_lock (span_set p g s) = global_heap_lock s"
  "global_heap_id (span_set p g s) = global_heap_id s"
  "global_memory_interface (span_set p g s) = global_memory_interface s"
  "os_map_granularity (span_set p g s) = os_map_granularity s"
  "os_page_size (span_set p g s) = os_page_size s"
  "global_thread_heap (span_set p g s) = global_thread_heap s"
  "errno (span_set p g s) = errno s"
  "sysconf_pagesize (span_set p g s) = sysconf_pagesize s"
  "os_mmap_results (span_set p g s) = os_mmap_results s"
  "os_calls (span_set p g s) = os_calls s"
  "pages (heap_set p h s) = pages s"
  "spans (heap_set p h s) = spans s"
  "block_next (heap_set p h s) = block_next s"
  "bytes (heap_set p h s) = bytes s"
  "global_heap_default (heap_set p h s) = global_heap_default s"
  "global_heap_queue (heap_set p h s) = global_heap_queue s"
  "global_heap_lock (heap_set p h s) = global_heap_lock s"
  "global_heap_id (heap_set p h s) = global_heap_id s"
  "global_memory_interface (heap_set p h s) = global_memory_interface s"
  "os_map_granularity (heap_set p h s) = os_map_granularity s"
  "os_page_size (heap_set p h s) = os_page_size s"
  "global_thread_heap (heap_set p h s) = global_thread_heap s"
  "errno (heap_set p h s) = errno s"
  "sysconf_pagesize (heap_set p h s) = sysconf_pagesize s"
  "os_mmap_results (heap_set p h s) = os_mmap_results s"
  "os_calls (heap_set p h s) = os_calls s"
  "pages (block_set_next p v s) = pages s"
  "spans (block_set_next p v s) = spans s"
  "heaps (block_set_next p v s) = heaps s"
  "bytes (block_set_next p v s) = bytes s"
  "global_heap_default (block_set_next p v s) = global_heap_default s"
  "global_heap_queue (block_set_next p v s) = global_heap_queue s"
  "global_heap_lock (block_set_next p v s) = global_heap_lock s"
  "global_heap_id (block_set_next p v s) = global_heap_id s"
  "global_memory_interface (block_set_next p v s) = global_memory_interface s"
  "os_map_granularity (block_set_next p v s) = os_map_granularity s"
  "os_page_size (block_set_next p v s) = os_page_size s"
  "global_thread_heap (block_set_next p v s) = global_thread_heap s"
  "errno (block_set_next p v s) = errno s"
  "sysconf_pagesize (block_set_next p v s) = sysconf_pagesize s"
  "os_mmap_results (block_set_next p v s) = os_mmap_results s"
  "os_calls (block_set_next p v s) = os_calls s"
  "pages (os_mdecommit p n s) = pages s"
  "spans (os_mdecommit p n s) = spans s"
  "heaps (os_mdecommit p n s) = heaps s"
  "block_next (os_mdecommit p n s) = block_next s"
  "bytes (os_mdecommit p n s) = bytes s"
  "global_heap_default (os_mdecommit p n s) = global_heap_default s"
  "global_heap_queue (os_mdecommit p n s) = global_heap_queue s"
  "global_heap_lock (os_mdecommit p n s) = global_heap_lock s"
  "global_heap_id (os_mdecommit p n s) = global_heap_id s"
  "global_memory_interface (os_mdecommit p n s) = global_memory_interface s"
  "os_map_granularity (os_mdecommit p n s) = os_map_granularity s"
  "os_page_size (os_mdecommit p n s) = os_page_size s"
  "global_thread_heap (os_mdecommit p n s) = global_thread_heap s"
  "errno (os_mdecommit p n s) = errno s"
  "sysconf_pagesize (os_mdecommit p n s) = sysconf_pagesize s"
  "os_mmap_results (os_mdecommit p n s) = os_mmap_results s"
  "pages (os_mcommit p n s) = pages s"
  "spans (os_mcommit p n s) = spans s"
  "heaps (os_mcommit p n s) = heaps s"
  "block_next (os_mcommit p n s) = block_next s"
  "bytes (os_mcommit p n s) = bytes s"
  "global_heap_default (os_mcommit p n s) = global_heap_default s"
  "global_heap_queue (os_mcommit p n s) = global_heap_queue s"
  "global_heap_lock (os_mcommit p n s) = global_heap_lock s"
  "global_heap_id (os_mcommit p n s) = global_heap_id s"
  "global_memory_interface (os_mcommit p n s) = global_memory_interface s"
  "os_map_granularity (os_mcommit p n s) = os_map_granularity s"
  "os_page_size (os_mcommit p n s) = os_page_size s"
  "global_thread_heap (os_mcommit p n s) = global_thread_heap s"
  "errno (os_mcommit p n s) = errno s"
  "sysconf_pagesize (os_mcommit p n s) = sysconf_pagesize s"
  "os_mmap_results (os_mcommit p n s) = os_mmap_results s"
  "pages (memset p c n s) = pages s"
  "spans (memset p c n s) = spans s"
  "heaps (memset p c n s) = heaps s"
  "block_next (memset p c n s) = block_next s"
  "global_heap_default (memset p c n s) = global_heap_default s"
  "global_heap_queue (memset p c n s) = global_heap_queue s"
  "global_heap_lock (memset p c n s) = global_heap_lock s"
  "global_heap_id (memset p c n s) = global_heap_id s"
  "global_memory_interface (memset p c n s) = global_memory_interface s"
  "os_map_granularity (memset p c n s) = os_map_granularity s"
  "os_page_size (memset p c n s) = os_page_size s"
  "global_thread_heap (memset p c n s) = global_thread_heap s"
  "errno (memset p c n s) = errno s"
  "sysconf_pagesize (memset p c n s) = sysconf_pagesize s"
  "os_mmap_results (memset p c n s) = os_mmap_results s"
  "os_calls (memset p c n s) = os_calls s"
  "pages (memmove p q n s) = pages s"
  "spans (memmove p q n s) = spans s"
  "heaps (memmove p q n s) = heaps s"
  "block_next (memmove p q n s) = block_next s"
  "global_heap_default (memmove p q n s) = global_heap_default s"
  "global_heap_queue (memmove p q n s) = global_heap_queue s"
  "global_heap_lock (memmove p q n s) = global_heap_lock s"
  "global_heap_id (memmove p q n s) = global_heap_id s"
  "global_memory_interface (memmove p q n s) = global_memory_interface s"
  "os_map_granularity (memmove p q n s) = os_map_granularity s"
  "os_page_size (memmove p q n s) = os_page_size s"
  "global_thread_heap (memmove p q n s) = global_thread_heap s"
  "errno (memmove p q n s) = errno s"
  "sysconf_pagesize (memmove p q n s) = sysconf_pagesize s"
  "os_mmap_results (memmove p q n s) = os_mmap_results s"
  "os_calls (memmove p q n s) = os_calls s"
  "pages (memcpy p q n s) = pages s"
  "spans (memcpy p q n s) = spans s"
  "heaps (memcpy p q n s) = heaps s"
  "block_next (memcpy p q n s) = block_next s"
  "global_heap_default (memcpy p q n s) = global_heap_default s"
  "global_heap_queue (memcpy p q n s) = global_heap_queue s"
  "global_heap_lock (memcpy p q n s) = global_heap_lock s"
  "global_heap_id (memcpy p q n s) = global_heap_id s"
  "global_memory_interface (memcpy p q n s) = global_memory_interface s"
  "os_map_granularity (memcpy p q n s) = os_map_granularity s"
  "os_page_size (memcpy p q n s) = os_page_size s"
  "global_thread_heap (memcpy p q n s) = global_thread_heap s"
  "errno (memcpy p q n s) = errno s"
  "sysconf_pagesize (memcpy p q n s) = sysconf_pagesize s"
  "os_mmap_results (memcpy p q n s) = os_mmap_results s"
  "os_calls (memcpy p q n s) = os_calls s"
  by (simp_all add: page_set_def span_set_def heap_set_def block_set_next_def os_mdecommit_def
      os_mcommit_def memset_def memmove_def memcpy_def)

lemma pages_page_set [simp]:
  "pages (page_set p f s) = (pages s)(p := f (pages s p))"
  by (simp add: page_set_def)

lemma heaps_heap_set [simp]:
  "heaps (heap_set h f s) = (heaps s)(h := f (heaps s h))"
  by (simp add: heap_set_def)

lemma spans_span_set [simp]:
  "spans (span_set sp f s) = (spans s)(sp := f (spans s sp))"
  by (simp add: span_set_def)


lemma os_calls_os_mdecommit [simp]:
  "os_calls (os_mdecommit a n s) = os_calls s @ [OS_mdecommit a n]"
  by (simp add: os_mdecommit_def)

lemma os_calls_os_mcommit [simp]:
  "os_calls (os_mcommit a n s) = os_calls s @ [OS_mcommit a n]"
  by (simp add: os_mcommit_def)
























lemma block_next_decommit [simp]:
  "block_next (page_decommit_memory_pages s p) = block_next s"
  by (simp add: page_decommit_memory_pages_def Let_def)

lemma block_next_unlink [simp]:
  "block_next (page_available_unlink s p) = block_next s"
  by (simp add: page_available_unlink_def Let_def)

lemma block_next_available_to_free [simp]:
  "block_next (page_available_to_free s p) = block_next s"
  by (simp add: page_available_to_free_def Let_def)

lemma block_next_full_to_available [simp]:
  "block_next (page_full_to_available s p) = block_next s"
  by (simp add: page_full_to_available_def Let_def)



section \<open>The accounting equation of a page (claim C2)\<close>





lemma unat_minus_le:
  fixes a b :: uint32_t
  assumes "b \<le> a"
  shows "unat (a - b) = unat a - unat b"
  using assms by (rule unat_sub)

















section \<open>Deallocating a block to its page (claim C3)\<close>






section \<open>Remote frees and the reclaiming of a full page (claim C4)\<close>





end
